theory Spec2Isabelle
  imports Complex_Main "HOL-Library.AList" "HOL-Library.Monad_Syntax" "HOL-Library.Multiset"
begin

section \<open>Numbers and geometry\<close>

text \<open>
  The program is TypeScript; every \<^verbatim>\<open>number\<close> is modelled as a \<^typ>\<open>real\<close>, so
  arithmetic is exact: rounding of IEEE doubles, infinities and signed zero are
  outside the model. Where a JavaScript operation can yield \<^verbatim>\<open>NaN\<close> on inputs the
  program can meet (\<^verbatim>\<open>parseFloat\<close>, a comparator reading a missing element), the
  result type is \<open>jsnum\<close>.
\<close>

datatype jsnum = Num real | NaN

text \<open>
  \<^verbatim>\<open>interface HighlightRect { top; left; width; height }\<close>. The field \<^verbatim>\<open>top\<close> is
  written \<open>top'\<close> because \<open>top\<close> is a constant of HOL. A \<^verbatim>\<open>DOMRect\<close> is read through
  the same four fields only, so it shares the record.
\<close>

record HighlightRect =
  top' :: real
  left :: real
  width :: real
  height :: real

type_synonym DOMRect = HighlightRect

text \<open>
  Storage normalisation, the body of the \<^verbatim>\<open>clientRects.map\<close> of \<^verbatim>\<open>addHighlight\<close>:
  \<^verbatim>\<open>{ top: (cr.top - pageRect.top) / scale, left: (cr.left - pageRect.left) / scale,
     width: cr.width / scale, height: cr.height / scale }\<close>.
\<close>

definition toStorageRect :: "DOMRect \<Rightarrow> DOMRect \<Rightarrow> real \<Rightarrow> HighlightRect" where
  "toStorageRect cr pageRect scale =
     \<lparr> top' = (top' cr - top' pageRect) / scale,
       left = (left cr - left pageRect) / scale,
       width = width cr / scale,
       height = height cr / scale \<rparr>"

text \<open>
  Display projection, the style of the overlay \<^verbatim>\<open>div\<close> of each stored rectangle:
  \<^verbatim>\<open>top: rect.top * scale, left: rect.left * scale, width: rect.width * scale,
     height: rect.height * scale\<close> (pixels, relative to the page wrapper).
\<close>

definition toScreenRect :: "HighlightRect \<Rightarrow> real \<Rightarrow> HighlightRect" where
  "toScreenRect rect scale =
     \<lparr> top' = top' rect * scale,
       left = left rect * scale,
       width = width rect * scale,
       height = height rect * scale \<rparr>"

text \<open>
  The specification's "scaled back": a rectangle shown at scale \<open>s2\<close> expressed at
  scale \<open>s1\<close>. No function of the source performs it; it is defined from the
  specification's words to state the round trip.
\<close>

definition rescaleRect :: "HighlightRect \<Rightarrow> real \<Rightarrow> real \<Rightarrow> HighlightRect" where
  "rescaleRect rect s2 s1 =
     \<lparr> top' = top' rect / s2 * s1,
       left = left rect / s2 * s1,
       width = width rect / s2 * s1,
       height = height rect / s2 * s1 \<rparr>"

text \<open>The rectangle \<open>cr\<close> seen from the page's own top-left corner.\<close>

definition relativeTo :: "DOMRect \<Rightarrow> DOMRect \<Rightarrow> HighlightRect" where
  "relativeTo cr pageRect =
     \<lparr> top' = top' cr - top' pageRect,
       left = left cr - left pageRect,
       width = width cr,
       height = height cr \<rparr>"

section \<open>Zoom\<close>

text \<open>
  \<^verbatim>\<open>parseFloat(v.toFixed(1))\<close>: \<^verbatim>\<open>toFixed(1)\<close> picks the integer \<open>n\<close> with \<open>n / 10\<close>
  nearest to \<open>v\<close>, the larger one on a tie, after taking the sign off; from
  \<open>10\<^sup>2\<^sup>1\<close> on it prints the number itself.
\<close>

definition toFixed1 :: "real \<Rightarrow> real" where
  "toFixed1 v =
     (if 10 ^ 21 \<le> \<bar>v\<bar> then v
      else if v < 0 then - (of_int \<lfloor>(- v) * 10 + 1 / 2\<rfloor> / 10)
      else of_int \<lfloor>v * 10 + 1 / 2\<rfloor> / 10)"

text \<open>\<^verbatim>\<open>useState<number>(1.8)\<close>\<close>

definition initialScale :: real where
  "initialScale = 18 / 10"

text \<open>\<^verbatim>\<open>setScale(s => parseFloat((s + 0.2).toFixed(1)))\<close>\<close>

definition zoomIn :: "real \<Rightarrow> real" where
  "zoomIn s = toFixed1 (s + 2 / 10)"

text \<open>\<^verbatim>\<open>setScale(s => parseFloat(Math.max(0.2, s - 0.2).toFixed(1)))\<close>\<close>

definition zoomOut :: "real \<Rightarrow> real" where
  "zoomOut s = toFixed1 (max (2 / 10) (s - 2 / 10))"

text \<open>\<^verbatim>\<open>setScale(1.8)\<close>\<close>

definition resetZoom :: "real \<Rightarrow> real" where
  "resetZoom s = 18 / 10"

datatype zoom_click = ZoomIn | ZoomOut | ResetZoom

fun zoom :: "real \<Rightarrow> zoom_click \<Rightarrow> real" where
  "zoom s ZoomIn = zoomIn s"
| "zoom s ZoomOut = zoomOut s"
| "zoom s ResetZoom = resetZoom s"

text \<open>The scale after a sequence of clicks on the three zoom buttons, from the initial state.\<close>

definition scaleAfter :: "zoom_click list \<Rightarrow> real" where
  "scaleAfter clicks = foldl zoom initialScale clicks"

section \<open>Export: colour strings\<close>

text \<open>
  A string is the list of its code units; HOL's \<^typ>\<open>char\<close> has 256 values, so the
  model covers strings of code units below 256. The classes of the regular
  expression on them: \<^verbatim>\<open>\d\<close> is an ASCII digit, \<^verbatim>\<open>\s\<close> is tab, line feed, vertical
  tab, form feed, carriage return, space or no-break space, \<^verbatim>\<open>[\d.]\<close> is a digit or
  a full stop.
\<close>

definition isDigit :: "char \<Rightarrow> bool" where
  "isDigit c = (c \<in> set ''0123456789'')"

definition isSpace :: "char \<Rightarrow> bool" where
  "isSpace c =
     (c \<in> {CHR 0x09, CHR 0x0A, CHR 0x0B, CHR 0x0C, CHR 0x0D, CHR 0x20, CHR 0xA0})"

definition isDigitOrDot :: "char \<Rightarrow> bool" where
  "isDigitOrDot c = (isDigit c \<or> c = CHR ''.'')"

text \<open>
  The pieces of the pattern. \<open>literal p s\<close> consumes the text \<open>p\<close> at the head of
  \<open>s\<close>; \<open>optional c s\<close> is \<^verbatim>\<open>c?\<close>; \<open>oneOrMore cls s\<close> is a greedy \<^verbatim>\<open>[cls]+\<close>,
  returning what it consumed; \<open>zeroOrMore cls s\<close> is a greedy \<^verbatim>\<open>[cls]*\<close>.
\<close>

fun literal :: "string \<Rightarrow> string \<Rightarrow> string option" where
  "literal [] s = Some s"
| "literal (p # ps) [] = None"
| "literal (p # ps) (c # cs) = (if p = c then literal ps cs else None)"

fun optional :: "char \<Rightarrow> string \<Rightarrow> string" where
  "optional p [] = []"
| "optional p (c # cs) = (if p = c then cs else c # cs)"

definition oneOrMore :: "(char \<Rightarrow> bool) \<Rightarrow> string \<Rightarrow> (string \<times> string) option" where
  "oneOrMore cls s =
     (if takeWhile cls s = [] then None else Some (takeWhile cls s, dropWhile cls s))"

definition zeroOrMore :: "(char \<Rightarrow> bool) \<Rightarrow> string \<Rightarrow> string" where
  "zeroOrMore cls s = dropWhile cls s"

text \<open>
  \<^verbatim>\<open>/rgba?\((\d+),\s*(\d+),\s*(\d+)(?:,\s*([\d.]+))?\)/\<close> tried at the head of \<open>s\<close>; the
  result is the four groups, the fourth absent when the optional part matched
  nothing. In this pattern every greedy repetition is followed by a character
  outside its class, and a string that continues with a comma after the third
  number cannot close with a parenthesis there, so the backtracking matcher
  finds a match exactly when this one pass does.
\<close>

definition colorRegexAt ::
  "string \<Rightarrow> (string \<times> string \<times> string \<times> string option) option" where
  "colorRegexAt s = do {
     s1 \<leftarrow> literal ''rgb'' s;
     s2 \<leftarrow> literal ''('' (optional CHR ''a'' s1);
     (m1, s3) \<leftarrow> oneOrMore isDigit s2;
     s4 \<leftarrow> literal '','' s3;
     (m2, s5) \<leftarrow> oneOrMore isDigit (zeroOrMore isSpace s4);
     s6 \<leftarrow> literal '','' s5;
     (m3, s7) \<leftarrow> oneOrMore isDigit (zeroOrMore isSpace s6);
     (case literal '','' s7 of
        None \<Rightarrow> do {
          _ \<leftarrow> literal '')'' s7;
          Some (m1, m2, m3, None)
        }
      | Some s8 \<Rightarrow> do {
          (m4, s9) \<leftarrow> oneOrMore isDigitOrDot (zeroOrMore isSpace s8);
          _ \<leftarrow> literal '')'' s9;
          Some (m1, m2, m3, Some m4)
        })
   }"

text \<open>
  \<^verbatim>\<open>highlight.color.match(...)\<close>: the pattern is not anchored, so the first
  position of the string where it matches decides.
\<close>

fun colorMatch :: "string \<Rightarrow> (string \<times> string \<times> string \<times> string option) option" where
  "colorMatch [] = colorRegexAt []"
| "colorMatch (c # cs) =
     (case colorRegexAt (c # cs) of None \<Rightarrow> colorMatch cs | Some m \<Rightarrow> Some m)"



definition digitsValue :: "string \<Rightarrow> nat" where
  "digitsValue ds = foldl (\<lambda>n c. 10 * n + (of_char c - 48)) 0 ds"

text \<open>
  \<^verbatim>\<open>parseInt\<close> and \<^verbatim>\<open>parseFloat\<close> on what the groups can hold. A group of \<^verbatim>\<open>\d+\<close> is a
  non-empty decimal numeral, and \<^verbatim>\<open>parseInt\<close> gives its value. A group of \<^verbatim>\<open>[\d.]+\<close>
  is read by \<^verbatim>\<open>parseFloat\<close> up to the end of its longest prefix of the form digits,
  digits-dot, digits-dot-digits or dot-digits; with no digit there the result is
  \<^verbatim>\<open>NaN\<close>. Signs, exponents and leading white space cannot occur in a group and
  are not modelled.
\<close>

definition parseInt :: "string \<Rightarrow> real" where
  "parseInt s = real (digitsValue (takeWhile isDigit s))"

definition parseFloat :: "string \<Rightarrow> jsnum" where
  "parseFloat s =
     (let ip = takeWhile isDigit s; rest = dropWhile isDigit s;
          fp = (case literal ''.'' rest of None \<Rightarrow> [] | Some t \<Rightarrow> takeWhile isDigit t)
      in if ip = [] \<and> fp = [] then NaN
         else Num (real (digitsValue ip) + real (digitsValue fp) / 10 ^ length fp))"

text \<open>
  The PDF library's \<^verbatim>\<open>rgb(red, green, blue)\<close>: it checks that each component
  lies between 0 and 1 and throws otherwise; \<open>None\<close> stands for the exception.
\<close>

datatype Color = RGB real real real

definition rgb :: "real \<Rightarrow> real \<Rightarrow> real \<Rightarrow> Color option" where
  "rgb red green blue =
     (if 0 \<le> red \<and> red \<le> 1 \<and> 0 \<le> green \<and> green \<le> 1 \<and> 0 \<le> blue \<and> blue \<le> 1
      then Some (RGB red green blue) else None)"

text \<open>
  The colour and opacity of a highlight:
  \<^verbatim>\<open>let highlightColor = rgb(1, 1, 0); let highlightOpacity = 0.3;
  if (highlight.color) { const match = ...; if (match) { highlightColor = rgb(
  parseInt(match[1]) / 255, ...); if (match[4] !== undefined) highlightOpacity =
  parseFloat(match[4]); else highlightOpacity = 1.0; } }\<close>.
  The empty string is falsy, like an absent colour. The result is \<open>None\<close> when a
  call of \<^verbatim>\<open>rgb\<close> throws, which a component above 255 makes it do.
\<close>

definition resolveColor :: "string option \<Rightarrow> (Color \<times> jsnum) option" where
  "resolveColor c = do {
     yellow \<leftarrow> rgb 1 1 0;
     (case c of
        None \<Rightarrow> Some (yellow, Num (3 / 10))
      | Some s \<Rightarrow>
          if s = [] then Some (yellow, Num (3 / 10))
          else
            (case colorMatch s of
               None \<Rightarrow> Some (yellow, Num (3 / 10))
             | Some (m1, m2, m3, m4) \<Rightarrow> do {
                 highlightColor \<leftarrow>
                   rgb (parseInt m1 / 255) (parseInt m2 / 255) (parseInt m3 / 255);
                 Some (highlightColor,
                       (case m4 of Some a \<Rightarrow> parseFloat a | None \<Rightarrow> Num 1))
               }))
   }"

section \<open>Export: drawing the highlights\<close>

text \<open>
  The export route's \<^verbatim>\<open>interface ClientHighlight { id; pageNumber; rects;
  selectedText; color? }\<close>. Its fields carry the suffix \<open>E\<close>, which keeps them apart
  from the editor's names.
\<close>

record ClientHighlight =
  idE :: string
  pageNumberE :: real
  rectsE :: "HighlightRect list"
  selectedTextE :: string
  colorE :: "string option"

text \<open>A loaded page, as far as the route reads it: \<^verbatim>\<open>page.getSize()\<close>.\<close>

record PDFPage =
  pageWidth :: real
  pageHeight :: real

text \<open>
  The arguments of one call \<^verbatim>\<open>page.drawRectangle({ x, y, width, height, color,
  opacity })\<close>, with the index of the page that receives it.
\<close>

record drawRectangle =
  page_arg :: nat
  x_arg :: real
  y_arg :: real
  width_arg :: real
  height_arg :: real
  color_arg :: Color
  opacity_arg :: jsnum

datatype export_error = MissingInput | ExportFailed

text \<open>
  The PDF library's \<^verbatim>\<open>drawRectangle\<close> checks its arguments before it draws: the
  opacity has to be a number between 0 and 1, and the call throws otherwise
  (\<^verbatim>\<open>NaN\<close> does not count as a number). \<open>page_drawRectangle\<close> is the rectangle as
  drawn, \<open>None\<close> for the exception.
\<close>

definition validOpacity :: "jsnum \<Rightarrow> bool" where
  "validOpacity v = (case v of Num opacity \<Rightarrow> 0 \<le> opacity \<and> opacity \<le> 1 | NaN \<Rightarrow> False)"

definition page_drawRectangle :: "drawRectangle \<Rightarrow> drawRectangle option" where
  "page_drawRectangle options = (if validOpacity (opacity_arg options) then Some options else None)"

text \<open>
  \<^verbatim>\<open>pages[i]\<close> for a number \<open>i\<close>: the element when \<open>i\<close> is an integer index of the
  array, \<^verbatim>\<open>undefined\<close> otherwise.
\<close>

definition pageAt :: "PDFPage list \<Rightarrow> real \<Rightarrow> (nat \<times> PDFPage) option" where
  "pageAt pages i =
     (if i = of_int \<lfloor>i\<rfloor> \<and> 0 \<le> i \<and> i < real (length pages)
      then Some (nat \<lfloor>i\<rfloor>, pages ! nat \<lfloor>i\<rfloor>) else None)"

text \<open>
  The body of the inner loop: \<^verbatim>\<open>x = rect.left; y = pageHeight - rect.top - rect.height;
  width = rect.width; height = rect.height\<close> and the arguments of the draw call
  made from them. The warning logged for a rectangle that leaves the page changes
  nothing.
\<close>

definition drawRect :: "nat \<Rightarrow> PDFPage \<Rightarrow> Color \<times> jsnum \<Rightarrow> HighlightRect \<Rightarrow> drawRectangle" where
  "drawRect n page co rect =
     \<lparr> page_arg = n,
       x_arg = left rect,
       y_arg = pageHeight page - top' rect - height rect,
       width_arg = width rect,
       height_arg = height rect,
       color_arg = fst co,
       opacity_arg = snd co \<rparr>"

text \<open>\<^verbatim>\<open>for (const rect of highlight.rects)\<close>: an exception of a draw call leaves the loop.\<close>

fun drawRects ::
  "nat \<Rightarrow> PDFPage \<Rightarrow> Color \<times> jsnum \<Rightarrow> HighlightRect list \<Rightarrow> export_error + drawRectangle list" where
  "drawRects n page co [] = Inr []"
| "drawRects n page co (rect # rest) =
     (case page_drawRectangle (drawRect n page co rect) of
        None \<Rightarrow> Inl ExportFailed
      | Some d \<Rightarrow>
          (case drawRects n page co rest of
             Inl e \<Rightarrow> Inl e
           | Inr ds \<Rightarrow> Inr (d # ds)))"

text \<open>
  The body of the outer loop for one highlight. A page number that is at most 0
  or greater than the page count is skipped (\<^verbatim>\<open>continue\<close>). Otherwise
  \<^verbatim>\<open>pages[highlight.pageNumber - 1]\<close> is read and \<^verbatim>\<open>page.getSize()\<close> called on it,
  which throws a \<^verbatim>\<open>TypeError\<close> when the element is \<^verbatim>\<open>undefined\<close>; then the colour
  is resolved and the rectangles are drawn, and either may throw.
\<close>

definition drawHighlight :: "PDFPage list \<Rightarrow> ClientHighlight \<Rightarrow> export_error + drawRectangle list" where
  "drawHighlight pages h =
     (if pageNumberE h \<le> 0 \<or> pageNumberE h > real (length pages) then Inr []
      else
        (case pageAt pages (pageNumberE h - 1) of
           None \<Rightarrow> Inl ExportFailed
         | Some (n, page) \<Rightarrow>
             (case resolveColor (colorE h) of
                None \<Rightarrow> Inl ExportFailed
              | Some co \<Rightarrow> drawRects n page co (rectsE h))))"

text \<open>\<^verbatim>\<open>for (const highlight of highlights)\<close>: an exception leaves the loop.\<close>

fun drawHighlights :: "PDFPage list \<Rightarrow> ClientHighlight list \<Rightarrow> export_error + drawRectangle list" where
  "drawHighlights pages [] = Inr []"
| "drawHighlights pages (h # hs) =
     (case drawHighlight pages h of
        Inl e \<Rightarrow> Inl e
      | Inr ds \<Rightarrow>
          (case drawHighlights pages hs of
             Inl e \<Rightarrow> Inl e
           | Inr ds' \<Rightarrow> Inr (ds @ ds')))"

text \<open>
  The route's \<^verbatim>\<open>POST\<close>. \<open>pdfData\<close> and \<open>highlights\<close> are the two fields of the
  request body, \<open>None\<close> when absent; \<open>loaded\<close> is what \<^verbatim>\<open>PDFDocument.load\<close> makes
  of the bytes, \<open>None\<close> when it throws. A missing or empty \<open>pdfData\<close> or missing
  \<open>highlights\<close> is answered with status 400 (\<open>MissingInput\<close>); every exception is
  caught and answered with status 500 (\<open>ExportFailed\<close>); otherwise the answer is
  the document with the listed rectangles drawn.
\<close>

definition POST_export ::
  "string option \<Rightarrow> ClientHighlight list option \<Rightarrow> PDFPage list option
     \<Rightarrow> export_error + drawRectangle list" where
  "POST_export pdfData highlights loaded =
     (case (pdfData, highlights) of
        (Some d, Some hs) \<Rightarrow>
          if d = [] then Inl MissingInput
          else (case loaded of None \<Rightarrow> Inl ExportFailed | Some pages \<Rightarrow> drawHighlights pages hs)
      | _ \<Rightarrow> Inl MissingInput)"

section \<open>Editor: the document session\<close>

text \<open>
  The editor's \<^verbatim>\<open>interface Highlight { id; page_number; rects; selected_text;
  color? }\<close>; \<^verbatim>\<open>id\<close> is written \<open>id'\<close> because \<open>id\<close> is a constant of HOL. The sync
  route declares the same shape for the highlights it receives.
\<close>

record Highlight =
  id' :: string
  page_number :: real
  rects :: "HighlightRect list"
  selected_text :: string
  color :: "string option"

text \<open>
  What \<^verbatim>\<open>addHighlight\<close> reads of the browser's selection: \<^verbatim>\<open>rangeCount\<close>,
  \<^verbatim>\<open>isCollapsed\<close>, \<^verbatim>\<open>getRangeAt(0).getClientRects()\<close> and \<^verbatim>\<open>toString()\<close>.
\<close>

record Selection =
  rangeCount :: nat
  isCollapsed :: bool
  clientRects :: "DOMRect list"
  selectionText :: string

text \<open>
  The component's state, as far as the handlers of highlights, saving and zoom
  read or write it. The file handle, thumbnails, loading flags and error message
  are left out: no handler below reads them.
\<close>

record EditorState =
  numPages :: "nat option"
  pageNumber :: real
  highlights :: "Highlight list"
  highlightedPages :: "real set"
  currentPdfId :: "string option"
  hasUnsavedChanges :: bool
  isSyncing :: bool
  scale :: real
  selectedHighlightColor :: string

definition HIGHLIGHT_COLORS_YELLOW :: string where
  "HIGHLIGHT_COLORS_YELLOW = ''rgba(255, 255, 0, 0.4)''"

definition initialState :: EditorState where
  "initialState =
     \<lparr> numPages = None, pageNumber = 1, highlights = [], highlightedPages = {},
       currentPdfId = None, hasUnsavedChanges = False, isSyncing = False,
       scale = initialScale, selectedHighlightColor = HIGHLIGHT_COLORS_YELLOW \<rparr>"

text \<open>\<^verbatim>\<open>setHighlights(hs); updateHighlightedPagesSet(hs)\<close>\<close>

definition setHighlights :: "Highlight list \<Rightarrow> EditorState \<Rightarrow> EditorState" where
  "setHighlights hs st = st\<lparr>highlights := hs, highlightedPages := page_number ` set hs\<rparr>"

text \<open>\<^verbatim>\<open>newHighlightRects.every(r => r.width === 0 || r.height === 0)\<close>\<close>

definition degenerate :: "HighlightRect \<Rightarrow> bool" where
  "degenerate r = (width r = 0 \<or> height r = 0)"

text \<open>
  \<^verbatim>\<open>addHighlight\<close>. \<open>sel\<close> is \<^verbatim>\<open>window.getSelection()\<close>, \<open>None\<close> for \<^verbatim>\<open>null\<close>;
  \<open>pageRect\<close> is the bounding rectangle of \<^verbatim>\<open>pageRefs.current[pageNumber]\<close>, \<open>None\<close>
  when the page has no wrapper; \<open>freshId\<close> is the identifier made from the clock
  and the random generator. Every early \<^verbatim>\<open>return\<close> leaves the state as it was.
  Removing the browser's ranges afterwards is not part of the state.
\<close>

definition addHighlight ::
  "EditorState \<Rightarrow> Selection option \<Rightarrow> DOMRect option \<Rightarrow> string \<Rightarrow> EditorState" where
  "addHighlight st sel pageRect freshId =
     (case sel of
        None \<Rightarrow> st
      | Some selection \<Rightarrow>
          if rangeCount selection = 0 \<or> isCollapsed selection then st
          else
            (case pageRect of
               None \<Rightarrow> st
             | Some pr \<Rightarrow>
                 let newHighlightRects =
                       map (\<lambda>cr. toStorageRect cr pr (scale st)) (clientRects selection)
                 in if length newHighlightRects = 0 \<or> list_all degenerate newHighlightRects
                    then st
                    else
                      let newHighlight =
                            \<lparr> id' = freshId, page_number = pageNumber st,
                              rects = newHighlightRects,
                              selected_text = selectionText selection,
                              color = Some (selectedHighlightColor st) \<rparr>
                      in (setHighlights (highlights st @ [newHighlight]) st)
                           \<lparr>hasUnsavedChanges := True\<rparr>))"

text \<open>\<^verbatim>\<open>handleDeleteHighlight\<close>\<close>

definition handleDeleteHighlight :: "EditorState \<Rightarrow> string \<Rightarrow> EditorState" where
  "handleDeleteHighlight st highlightIdToDelete =
     (setHighlights (filter (\<lambda>h. id' h \<noteq> highlightIdToDelete) (highlights st)) st)
       \<lparr>hasUnsavedChanges := True\<rparr>"

text \<open>
  \<^verbatim>\<open>handleSaveHighlights\<close>, run to its end in one step; the argument is how the
  request ended: a response with \<^verbatim>\<open>ok\<close>, a response without, or an exception of
  \<^verbatim>\<open>fetch\<close>. A \<^verbatim>\<open>null\<close> or empty \<^verbatim>\<open>currentPdfId\<close> is falsy.
\<close>

datatype save_outcome = ResponseOk | ResponseNotOk | FetchThrows

definition handleSaveHighlights :: "EditorState \<Rightarrow> save_outcome \<Rightarrow> EditorState" where
  "handleSaveHighlights st outcome =
     (if currentPdfId st = None \<or> currentPdfId st = Some [] then st
      else if \<not> hasUnsavedChanges st then st
      else
        (case outcome of
           ResponseOk \<Rightarrow> st\<lparr>hasUnsavedChanges := False, isSyncing := False\<rparr>
         | ResponseNotOk \<Rightarrow> st\<lparr>isSyncing := False\<rparr>
         | FetchThrows \<Rightarrow> st\<lparr>isSyncing := False\<rparr>))"

text \<open>
  \<^verbatim>\<open>loadHighlightsForPdf\<close>: the highlights of the answer on success, none on a
  response without \<^verbatim>\<open>ok\<close> or an exception; the flag is cleared on all three paths.
\<close>

datatype load_outcome = Loaded "Highlight list" | LoadNotOk | LoadThrows

definition loadHighlightsForPdf :: "EditorState \<Rightarrow> string \<Rightarrow> load_outcome \<Rightarrow> EditorState" where
  "loadHighlightsForPdf st pdfIdToLoad outcome =
     (if pdfIdToLoad = [] then st
      else
        (case outcome of
           Loaded loadedHighlights \<Rightarrow>
             (setHighlights loadedHighlights st)\<lparr>hasUnsavedChanges := False\<rparr>
         | LoadNotOk \<Rightarrow> (setHighlights [] st)\<lparr>hasUnsavedChanges := False\<rparr>
         | LoadThrows \<Rightarrow> (setHighlights [] st)\<lparr>hasUnsavedChanges := False\<rparr>))"

text \<open>\<^verbatim>\<open>handleFileChange\<close>; the argument tells whether a file was chosen.\<close>

definition handleFileChange :: "EditorState \<Rightarrow> bool \<Rightarrow> EditorState" where
  "handleFileChange st uploadedFile =
     (if uploadedFile
      then (setHighlights [] (st\<lparr>currentPdfId := None\<rparr>))\<lparr>hasUnsavedChanges := False\<rparr>
      else st)"

text \<open>\<^verbatim>\<open>onDocumentLoadSuccess\<close>, with the outcome of the load it may start.\<close>

definition onDocumentLoadSuccess :: "EditorState \<Rightarrow> nat \<Rightarrow> load_outcome \<Rightarrow> EditorState" where
  "onDocumentLoadSuccess st n outcome =
     (let st1 = st\<lparr>numPages := Some n, pageNumber := 1\<rparr>
      in case currentPdfId st1 of
           None \<Rightarrow> (setHighlights [] st1)\<lparr>hasUnsavedChanges := False\<rparr>
         | Some pdfId \<Rightarrow>
             if pdfId = [] then (setHighlights [] st1)\<lparr>hasUnsavedChanges := False\<rparr>
             else loadHighlightsForPdf st1 pdfId outcome)"

text \<open>\<^verbatim>\<open>onDocumentLoadError\<close>\<close>

definition onDocumentLoadError :: "EditorState \<Rightarrow> EditorState" where
  "onDocumentLoadError st = st\<lparr>currentPdfId := None, numPages := None\<rparr>"

text \<open>
  The effect on \<^verbatim>\<open>initialFileUrl\<close> and \<^verbatim>\<open>initialPdfId\<close>: with both present the
  session is reset for that document, otherwise everything is reset.
\<close>

definition truthy :: "string option \<Rightarrow> bool" where
  "truthy v = (v \<noteq> None \<and> v \<noteq> Some [])"

definition propsEffect :: "EditorState \<Rightarrow> string option \<Rightarrow> string option \<Rightarrow> EditorState" where
  "propsEffect st initialFileUrl initialPdfId =
     (if truthy initialFileUrl \<and> truthy initialPdfId
      then (setHighlights [] (st\<lparr>currentPdfId := initialPdfId\<rparr>))\<lparr>hasUnsavedChanges := False\<rparr>
      else (setHighlights [] (st\<lparr>currentPdfId := None, numPages := None, pageNumber := 1\<rparr>))
             \<lparr>hasUnsavedChanges := False\<rparr>)"

text \<open>Everything that can happen to the session, and the handler it runs.\<close>

datatype event =
    AddHighlight "Selection option" "DOMRect option" string
  | DeleteHighlight string
  | SaveHighlights save_outcome
  | LoadHighlights string load_outcome
  | FileChange bool
  | DocumentLoadSuccess nat load_outcome
  | DocumentLoadError
  | PropsChange "string option" "string option"
  | PageVisible real
  | SelectColor string
  | Zoom zoom_click

fun step :: "EditorState \<Rightarrow> event \<Rightarrow> EditorState" where
  "step st (AddHighlight sel pageRect freshId) = addHighlight st sel pageRect freshId"
| "step st (DeleteHighlight i) = handleDeleteHighlight st i"
| "step st (SaveHighlights outcome) = handleSaveHighlights st outcome"
| "step st (LoadHighlights pdfIdToLoad outcome) = loadHighlightsForPdf st pdfIdToLoad outcome"
| "step st (FileChange uploadedFile) = handleFileChange st uploadedFile"
| "step st (DocumentLoadSuccess n outcome) = onDocumentLoadSuccess st n outcome"
| "step st DocumentLoadError = onDocumentLoadError st"
| "step st (PropsChange initialFileUrl initialPdfId) = propsEffect st initialFileUrl initialPdfId"
| "step st (PageVisible pageNum) = st\<lparr>pageNumber := pageNum\<rparr>"
| "step st (SelectColor c) = st\<lparr>selectedHighlightColor := c\<rparr>"
| "step st (Zoom c) = st\<lparr>scale := zoom (scale st) c\<rparr>"


section \<open>Editor: highlights grouped by page\<close>

text \<open>
  \<^verbatim>\<open>Array.prototype.sort(comparefn)\<close>. The language requires the sort to be stable
  and, for a comparator that is a consistent ordering, the result to be ordered
  by it; that determines the result, and the stable insertion sort computes it.
  A comparator result of \<^verbatim>\<open>NaN\<close> counts as 0.
\<close>

definition SortCompare :: "('a \<Rightarrow> 'a \<Rightarrow> jsnum) \<Rightarrow> 'a \<Rightarrow> 'a \<Rightarrow> real" where
  "SortCompare comparefn a b = (case comparefn a b of NaN \<Rightarrow> 0 | Num v \<Rightarrow> v)"

fun insertSorted :: "('a \<Rightarrow> 'a \<Rightarrow> jsnum) \<Rightarrow> 'a \<Rightarrow> 'a list \<Rightarrow> 'a list" where
  "insertSorted comparefn a [] = [a]"
| "insertSorted comparefn a (b # bs) =
     (if SortCompare comparefn a b < 0 then a # b # bs
      else b # insertSorted comparefn a bs)"

definition arraySort :: "('a \<Rightarrow> 'a \<Rightarrow> jsnum) \<Rightarrow> 'a list \<Rightarrow> 'a list" where
  "arraySort comparefn xs = foldl (\<lambda>sorted a. insertSorted comparefn a sorted) [] xs"

text \<open>
  \<^verbatim>\<open>(a, b) => a.rects[0]?.top - b.rects[0]?.top\<close>: with an empty \<^verbatim>\<open>rects\<close> the
  operand is \<^verbatim>\<open>undefined\<close> and the difference \<^verbatim>\<open>NaN\<close>.
\<close>

definition compareTop :: "Highlight \<Rightarrow> Highlight \<Rightarrow> jsnum" where
  "compareTop a b =
     (case (rects a, rects b) of
        (ra # _, rb # _) \<Rightarrow> Num (top' ra - top' rb)
      | _ \<Rightarrow> NaN)"

text \<open>
  The reducer of \<^verbatim>\<open>allHighlightsGroupedByPage\<close>: the accumulator is the object
  keyed by page number, here the list of its entries; the highlight is pushed on
  its page's array, which is then sorted.
\<close>

definition groupStep ::
  "(real \<times> Highlight list) list \<Rightarrow> Highlight \<Rightarrow> (real \<times> Highlight list) list" where
  "groupStep acc highlight =
     (let pageKey = page_number highlight;
          pushed = (case map_of acc pageKey of None \<Rightarrow> [] | Some hs \<Rightarrow> hs) @ [highlight]
      in AList.update pageKey (arraySort compareTop pushed) acc)"

definition allHighlightsGroupedByPage :: "Highlight list \<Rightarrow> (real \<times> Highlight list) list" where
  "allHighlightsGroupedByPage hs = foldl groupStep [] hs"

text \<open>
  \<^verbatim>\<open>Object.keys(allHighlightsGroupedByPage).map(Number).sort((a, b) => a - b)\<close>.
  The keys are distinct, so the order in which the object lists them does not
  show in the sorted result.
\<close>

definition pagesWithHighlights :: "Highlight list \<Rightarrow> real list" where
  "pagesWithHighlights hs =
     arraySort (\<lambda>a b. Num (a - b)) (map fst (allHighlightsGroupedByPage hs))"

text \<open>\<^verbatim>\<open>allHighlightsGroupedByPage[pn]\<close>, as the side panel reads it for a listed page.\<close>

definition groupOfPage :: "Highlight list \<Rightarrow> real \<Rightarrow> Highlight list" where
  "groupOfPage hs pn = (case map_of (allHighlightsGroupedByPage hs) pn of None \<Rightarrow> [] | Some g \<Rightarrow> g)"

text \<open>The vertical position the groups are ordered by: \<^verbatim>\<open>rects[0].top\<close>.\<close>

definition firstTop :: "Highlight \<Rightarrow> real" where
  "firstTop h = top' (hd (rects h))"

section \<open>Sync route\<close>

text \<open>
  A row of the table \<^verbatim>\<open>highlights\<close> as the route writes it:
  \<^verbatim>\<open>{ pdf_id, page_number, rects, selected_text, color }\<close>; the columns that share a
  name with a highlight's field carry the suffix \<open>_col\<close>.
\<close>

record HighlightRow =
  pdf_id :: string
  page_number_col :: real
  rects_col :: "HighlightRect list"
  selected_text_col :: string
  color_col :: "string option"

text \<open>
  The calls made on the database client, and whether each reports an error. A
  call that reports an error is taken to leave the table as it was.
\<close>

datatype db_call = Delete string | Insert "HighlightRow list"

record db_faults =
  deleteError :: bool
  insertError :: bool

datatype sync_response = Synced | MissingField | ServerError

record SyncResult =
  response :: sync_response
  table :: "HighlightRow list"
  calls :: "db_call list"

text \<open>\<^verbatim>\<open>clientHighlights.map(h => ({ pdf_id: pdfId, page_number: h.page_number, ... }))\<close>\<close>

definition highlightsToInsert :: "string \<Rightarrow> Highlight list \<Rightarrow> HighlightRow list" where
  "highlightsToInsert pdfId clientHighlights =
     map (\<lambda>h. \<lparr> pdf_id = pdfId, page_number_col = page_number h, rects_col = rects h,
                 selected_text_col = selected_text h, color_col = color h \<rparr>) clientHighlights"

text \<open>
  The sync route's \<^verbatim>\<open>POST\<close> on a table \<open>rows\<close>. \<open>pdfId\<close> is \<open>None\<close> when the body
  has none, \<open>clientHighlights\<close> is \<open>None\<close> when the body's \<^verbatim>\<open>highlights\<close> is not an
  array. Status 400 is \<open>MissingField\<close>, status 500 is \<open>ServerError\<close>, status 200
  is \<open>Synced\<close>.
\<close>

definition POST_highlights ::
  "string option \<Rightarrow> Highlight list option \<Rightarrow> db_faults \<Rightarrow> HighlightRow list \<Rightarrow> SyncResult" where
  "POST_highlights pdfId clientHighlights faults rows =
     (case (pdfId, clientHighlights) of
        (Some pid, Some hs) \<Rightarrow>
          if pid = [] then \<lparr>response = MissingField, table = rows, calls = []\<rparr>
          else if deleteError faults
          then \<lparr>response = ServerError, table = rows, calls = [Delete pid]\<rparr>
          else
            (let deleted = filter (\<lambda>r. pdf_id r \<noteq> pid) rows
             in if length hs > 0
                then
                  if insertError faults
                  then \<lparr>response = ServerError, table = deleted,
                         calls = [Delete pid, Insert (highlightsToInsert pid hs)]\<rparr>
                  else \<lparr>response = Synced, table = deleted @ highlightsToInsert pid hs,
                         calls = [Delete pid, Insert (highlightsToInsert pid hs)]\<rparr>
                else \<lparr>response = Synced, table = deleted, calls = [Delete pid]\<rparr>)
      | _ \<Rightarrow> \<lparr>response = MissingField, table = rows, calls = []\<rparr>)"

text \<open>\<^verbatim>\<open>GET\<close> of the same route: the rows of one document.\<close>

definition GET_highlights :: "string \<Rightarrow> HighlightRow list \<Rightarrow> HighlightRow list" where
  "GET_highlights pdfId rows = filter (\<lambda>r. pdf_id r = pdfId) rows"

text \<open>The highlights of the list that lie on page \<open>pn\<close>, in the list's order.\<close>

definition onPage :: "real \<Rightarrow> Highlight list \<Rightarrow> Highlight list" where
  "onPage pn hs = filter (\<lambda>h. page_number h = pn) hs"

text \<open>
  A comparator orders the elements of \<open>xs\<close> by the key \<open>f\<close> when it is negative
  exactly on the pairs whose keys ascend.
\<close>

definition ordersBy :: "('a \<Rightarrow> 'a \<Rightarrow> jsnum) \<Rightarrow> ('a \<Rightarrow> real) \<Rightarrow> 'a list \<Rightarrow> bool" where
  "ordersBy comparefn f xs =
     list_all (\<lambda>a. list_all (\<lambda>b. (SortCompare comparefn a b < 0) = (f a < f b)) xs) xs"

section \<open>Example inputs\<close>

definition examplePage :: PDFPage where
  "examplePage = \<lparr>pageWidth = 600, pageHeight = 800\<rparr>"

definition exampleRect :: HighlightRect where
  "exampleRect = \<lparr>top' = 10, left = 5, width = 100, height = 20\<rparr>"

text \<open>The specification's example: that rectangle on page 1, a page of height 800.\<close>

definition exampleExportHighlight :: ClientHighlight where
  "exampleExportHighlight =
     \<lparr> idE = ''hl-1'', pageNumberE = 1, rectsE = [exampleRect], selectedTextE = ''abc'',
       colorE = None \<rparr>"

definition exampleDraw :: drawRectangle where
  "exampleDraw =
     \<lparr> page_arg = 0, x_arg = 5, y_arg = 770, width_arg = 100, height_arg = 20,
       color_arg = RGB 1 1 0, opacity_arg = Num (3 / 10) \<rparr>"

text \<open>
  A selection of two client rectangles, the first of width 0, on a page whose
  wrapper sits at top 10, left 4 of the screen.
\<close>

definition exampleSelection :: Selection where
  "exampleSelection =
     \<lparr> rangeCount = 1, isCollapsed = False,
       clientRects = [\<lparr>top' = 100, left = 40, width = 0, height = 18\<rparr>,
                      \<lparr>top' = 118, left = 40, width = 90, height = 18\<rparr>],
       selectionText = ''abc'' \<rparr>"

definition examplePageRect :: DOMRect where
  "examplePageRect = \<lparr>top' = 10, left = 4, width = 1080, height = 1440\<rparr>"


definition exampleHighlight :: "string \<Rightarrow> real \<Rightarrow> real \<Rightarrow> Highlight" where
  "exampleHighlight i pn t =
     \<lparr> id' = i, page_number = pn,
       rects = [\<lparr>top' = t, left = 0, width = 10, height = 10\<rparr>],
       selected_text = i, color = None \<rparr>"

text \<open>Five highlights on pages 2, 1, 2, 2, 1, with equal tops within each page.\<close>

definition exampleHighlights :: "Highlight list" where
  "exampleHighlights =
     [exampleHighlight ''a'' 2 50, exampleHighlight ''b'' 1 30, exampleHighlight ''c'' 2 20,
      exampleHighlight ''d'' 2 50, exampleHighlight ''e'' 1 30]"

definition exampleRow :: "string \<Rightarrow> HighlightRow" where
  "exampleRow pid =
     \<lparr> pdf_id = pid, page_number_col = 1, rects_col = [exampleRect],
       selected_text_col = ''abc'', color_col = None \<rparr>"

section \<open>Properties of the geometry\<close>

lemma toScreen_toStorage:
  assumes "s1 \<noteq> 0"
  shows "toScreenRect (toStorageRect cr pageRect s1) s1 = relativeTo cr pageRect"
  using assms by (simp add: toScreenRect_def toStorageRect_def relativeTo_def)

text \<open>
  A client rectangle that is, seen from the page's corner, the rectangle \<open>r\<close>
  shown at scale \<open>s\<close> is stored as \<open>r\<close>, whatever the scale.
\<close>

lemma recapture:
  assumes "s \<noteq> 0" and "relativeTo cr pageRect = toScreenRect r s"
  shows "toStorageRect cr pageRect s = r"
proof -
  have "top' cr - top' pageRect = top' r * s" "left cr - left pageRect = left r * s"
    "width cr = width r * s" "height cr = height r * s"
    using assms(2) by (simp_all add: relativeTo_def toScreenRect_def)
  then show ?thesis
    using assms(1) by (simp add: toStorageRect_def)
qed

text \<open>
  Claim C2, as amended. A rectangle captured at scale \<open>s1\<close>, shown at scale \<open>s2\<close> and
  scaled back to \<open>s1\<close> is the captured rectangle measured from the page's top-left
  corner: width and height are reproduced, top and left are reproduced less the
  page origin. And what is stored does not depend on the scale of the capture: a
  selection that covers the stored rectangle \<open>r\<close> as shown at scale \<open>s1\<close> is stored
  as \<open>r\<close>.
\<close>

theorem storage_round_trip:
  assumes "s1 \<noteq> 0" and "s2 \<noteq> 0"
  shows "rescaleRect (toScreenRect (toStorageRect cr pageRect s1) s2) s2 s1
           = relativeTo cr pageRect
         \<and> (relativeTo cr pageRect = toScreenRect r s1 \<longrightarrow> toStorageRect cr pageRect s1 = r)"
  using assms recapture [of s1 cr pageRect r]
  by (simp add: rescaleRect_def toScreenRect_def toStorageRect_def relativeTo_def)

theorem storage_round_trip_witness:
  "(2::real) \<noteq> 0 \<and> (4::real) \<noteq> 0 \<and>
   rescaleRect
     (toScreenRect
        (toStorageRect \<lparr>top' = 10, left = 5, width = 100, height = 20\<rparr>
           \<lparr>top' = 2, left = 1, width = 600, height = 800\<rparr> 2) 4) 4 2
     = \<lparr>top' = 8, left = 4, width = 100, height = 20\<rparr>
   \<and> toStorageRect \<lparr>top' = 10, left = 5, width = 100, height = 20\<rparr>
           \<lparr>top' = 2, left = 1, width = 600, height = 800\<rparr> 2
     = \<lparr>top' = 4, left = 2, width = 50, height = 10\<rparr>"
proof -
  have a: "(2::real) \<noteq> 0" and b: "(4::real) \<noteq> 0"
    by simp_all
  have c: "relativeTo \<lparr>top' = 10, left = 5, width = 100, height = 20\<rparr>
             \<lparr>top' = 2, left = 1, width = 600, height = 800\<rparr>
           = toScreenRect \<lparr>top' = 4, left = 2, width = 50, height = 10\<rparr> 2"
    by (simp add: relativeTo_def toScreenRect_def)
  show ?thesis
    using storage_round_trip
      [OF a b, of "\<lparr>top' = 10, left = 5, width = 100, height = 20\<rparr>"
         "\<lparr>top' = 2, left = 1, width = 600, height = 800\<rparr>"
         "\<lparr>top' = 4, left = 2, width = 50, height = 10\<rparr>"] c
    by (simp add: relativeTo_def rescaleRect_def toScreenRect_def toStorageRect_def)
qed

text \<open>
  Claim C2, as stated, fails when the page does not sit at the screen origin: the
  round trip of the rectangle at top 10, left 5 on a page at top 2, left 1 has
  top 8, left 4.
\<close>

theorem storage_round_trip_counterexample:
  "rescaleRect
     (toScreenRect
        (toStorageRect \<lparr>top' = 10, left = 5, width = 100, height = 20\<rparr>
           \<lparr>top' = 2, left = 1, width = 600, height = 800\<rparr> 2) 4) 4 2
     \<noteq> \<lparr>top' = 10, left = 5, width = 100, height = 20\<rparr>"
  by (simp add: rescaleRect_def toScreenRect_def toStorageRect_def)

section \<open>Properties of the capture\<close>

lemma toStorageRect_degenerate:
  "s \<noteq> 0 \<Longrightarrow> degenerate (toStorageRect cr pr s) = degenerate cr"
  by (simp add: degenerate_def toStorageRect_def)

lemmas example_defs =
  addHighlight_def initialState_def exampleSelection_def examplePageRect_def setHighlights_def
  toStorageRect_def degenerate_def initialScale_def

text \<open>
  Claim C1, as amended. For a selection that is captured (a range, not collapsed,
  the page wrapper present, the scale not 0), no highlight is created exactly when
  the rectangles left after dropping those of width 0 or height 0 would be none,
  that is, exactly when every rectangle of the selection has width 0 or height 0.
  Otherwise one highlight is appended, and it holds all the rectangles of the
  selection, in order, none dropped; at least one of them has neither dimension 0.
\<close>

theorem capture_keeps_all_rects:
  assumes "scale st \<noteq> 0" and "rangeCount sel \<noteq> 0" and "\<not> isCollapsed sel"
  shows
    "(highlights (addHighlight st (Some sel) (Some pr) freshId) = highlights st
        \<longleftrightarrow> filter (\<lambda>r. \<not> degenerate r)
              (map (\<lambda>cr. toStorageRect cr pr (scale st)) (clientRects sel)) = [])
     \<and> (highlights (addHighlight st (Some sel) (Some pr) freshId) = highlights st
        \<longleftrightarrow> list_all degenerate (clientRects sel))
     \<and> (\<not> list_all degenerate (clientRects sel) \<longrightarrow>
          highlights (addHighlight st (Some sel) (Some pr) freshId)
            = highlights st @
              [\<lparr> id' = freshId, page_number = pageNumber st,
                 rects = map (\<lambda>cr. toStorageRect cr pr (scale st)) (clientRects sel),
                 selected_text = selectionText sel,
                 color = Some (selectedHighlightColor st) \<rparr>]
          \<and> (\<exists>r \<in> set (rects (last (highlights (addHighlight st (Some sel) (Some pr) freshId)))).
                width r \<noteq> 0 \<and> height r \<noteq> 0))"
proof -
  let ?new = "map (\<lambda>cr. toStorageRect cr pr (scale st)) (clientRects sel)"
  have d: "list_all degenerate ?new = list_all degenerate (clientRects sel)"
    using assms(1) by (simp add: list_all_iff toStorageRect_degenerate)
  have f: "(filter (\<lambda>r. \<not> degenerate r) ?new = []) = list_all degenerate ?new"
    by (simp add: filter_empty_conv list_all_iff)
  have e: "?new = [] \<Longrightarrow> list_all degenerate (clientRects sel)"
    by simp
  show ?thesis
    using assms(2,3) d e unfolding f
    by (auto simp add: addHighlight_def setHighlights_def Let_def list_all_iff degenerate_def)
qed

theorem capture_keeps_all_rects_witness:
  "scale initialState \<noteq> 0 \<and> rangeCount exampleSelection \<noteq> 0
   \<and> \<not> isCollapsed exampleSelection
   \<and> \<not> list_all degenerate (clientRects exampleSelection)
   \<and> highlights
        (addHighlight initialState (Some exampleSelection) (Some examplePageRect) ''hl-1'')
      = [\<lparr> id' = ''hl-1'', page_number = 1,
            rects = [\<lparr>top' = 50, left = 20, width = 0, height = 10\<rparr>,
                     \<lparr>top' = 60, left = 20, width = 50, height = 10\<rparr>],
            selected_text = ''abc'', color = Some ''rgba(255, 255, 0, 0.4)'' \<rparr>]"
proof -
  have s: "scale initialState \<noteq> 0"
    by (simp add: initialState_def initialScale_def)
  have r: "rangeCount exampleSelection \<noteq> 0"
    by (simp add: exampleSelection_def)
  have c: "\<not> isCollapsed exampleSelection"
    by (simp add: exampleSelection_def)
  have n: "\<not> list_all degenerate (clientRects exampleSelection)"
    by (simp add: exampleSelection_def degenerate_def)
  have "highlights
          (addHighlight initialState (Some exampleSelection) (Some examplePageRect) ''hl-1'')
        = highlights initialState @
          [\<lparr> id' = ''hl-1'', page_number = pageNumber initialState,
             rects = map (\<lambda>cr. toStorageRect cr examplePageRect (scale initialState))
                       (clientRects exampleSelection),
             selected_text = selectionText exampleSelection,
             color = Some (selectedHighlightColor initialState) \<rparr>]"
    using capture_keeps_all_rects [OF s r c, of examplePageRect "''hl-1''"] n by blast
  then show ?thesis
    using s r c n
    by (simp add: initialState_def exampleSelection_def examplePageRect_def toStorageRect_def
        initialScale_def HIGHLIGHT_COLORS_YELLOW_def)
qed

text \<open>
  Claim C1, as stated, fails: a selection of a rectangle of width 0 and a rectangle
  of width 90, captured at scale 1.8, is stored as one highlight whose rectangles
  have the widths 0 and 50. The rectangle of width 0 is not dropped.
\<close>

theorem capture_keeps_all_rects_counterexample:
  "map width (rects (last (highlights
      (addHighlight initialState (Some exampleSelection) (Some examplePageRect) ''hl-1''))))
     = [0, 50]"
  by (simp add: example_defs)

section \<open>Properties of the unsaved-changes flag\<close>









text \<open>
  Opening a document starts the session anew, the flag included: after a local
  file is chosen and loaded and a highlight is added, choosing another local file
  leaves no highlight and a cleared flag.
\<close>

lemma opening_resets_session:
  "hasUnsavedChanges
     (foldl step initialState
        [FileChange True, DocumentLoadSuccess 3 LoadNotOk,
         AddHighlight (Some exampleSelection) (Some examplePageRect) ''hl-1''])
   \<and> step
        (foldl step initialState
           [FileChange True, DocumentLoadSuccess 3 LoadNotOk,
            AddHighlight (Some exampleSelection) (Some examplePageRect) ''hl-1''])
        (FileChange True)
      = initialState\<lparr>numPages := Some 3\<rparr>"
  by (simp add: example_defs handleFileChange_def onDocumentLoadSuccess_def)

section \<open>Properties of the zoom\<close>

lemma toFixed1_near: "v - 1 / 20 \<le> toFixed1 v"
proof -
  have a: "v * 10 + 1 / 2 - 1 \<le> of_int \<lfloor>v * 10 + 1 / 2\<rfloor>"
    by linarith
  have b: "of_int \<lfloor>(- v) * 10 + 1 / 2\<rfloor> \<le> (- v) * 10 + 1 / 2"
    by linarith
  show ?thesis
    using a b by (simp add: toFixed1_def field_simps)
qed

lemma toFixed1_floor: "2 / 10 \<le> v \<Longrightarrow> 2 / 10 \<le> toFixed1 v"
proof -
  assume v: "2 / 10 \<le> v"
  then have "(2::real) \<le> v * 10 + 1 / 2" by simp
  then have "(2::int) \<le> \<lfloor>v * 10 + 1 / 2\<rfloor>" by (simp add: le_floor_iff)
  then have "(2::real) \<le> of_int \<lfloor>v * 10 + 1 / 2\<rfloor>" by linarith
  with v show ?thesis by (simp add: toFixed1_def)
qed

lemma zoomIn_increases: "s < zoomIn s"
  using toFixed1_near [of "s + 2 / 10"] by (simp add: zoomIn_def)

lemma zoomOut_floor: "2 / 10 \<le> zoomOut s"
  unfolding zoomOut_def by (rule toFixed1_floor) simp

lemma zoom_floor: "2 / 10 \<le> s \<Longrightarrow> 2 / 10 \<le> zoom s c"
  using zoomIn_increases [of s] zoomOut_floor [of s]
  by (cases c) (simp_all add: resetZoom_def)

lemma foldl_zoom_floor: "2 / 10 \<le> s \<Longrightarrow> 2 / 10 \<le> foldl zoom s clicks"
proof (induction clicks arbitrary: s)
  case Nil
  then show ?case by simp
next
  case (Cons c clicks)
  have "2 / 10 \<le> zoom s c"
    using Cons.prems by (rule zoom_floor)
  then have "2 / 10 \<le> foldl zoom (zoom s c) clicks"
    by (rule Cons.IH)
  then show ?case by simp
qed

text \<open>Only the zoom buttons write the scale.\<close>

lemma scale_step: "scale (step st ev) = (case ev of Zoom c \<Rightarrow> zoom (scale st) c | _ \<Rightarrow> scale st)"
  by (cases ev)
    (simp_all add: addHighlight_def handleDeleteHighlight_def handleSaveHighlights_def
      loadHighlightsForPdf_def handleFileChange_def onDocumentLoadSuccess_def
      onDocumentLoadError_def propsEffect_def setHighlights_def Let_def
      split: option.splits save_outcome.splits load_outcome.splits)

lemma step_floor:
  assumes "2 / 10 \<le> scale st"
  shows "2 / 10 \<le> scale (step st ev)"
  unfolding scale_step using assms zoom_floor [OF assms] by (cases ev) simp_all

lemma foldl_step_floor: "2 / 10 \<le> scale st \<Longrightarrow> 2 / 10 \<le> scale (foldl step st evs)"
proof (induction evs arbitrary: st)
  case Nil
  then show ?case by simp
next
  case (Cons ev evs)
  have "2 / 10 \<le> scale (step st ev)"
    using Cons.prems by (rule step_floor)
  then have "2 / 10 \<le> scale (foldl step (step st ev) evs)"
    by (rule Cons.IH)
  then show ?case by simp
qed

text \<open>
  Claim C9. The scale starts at 1.8; zooming in strictly increases it, resetting
  gives 1.8, zooming out never gives less than 0.2. So after any sequence of
  clicks on the zoom buttons, and after any sequence of events of the session,
  the scale is at least 0.2, and the divisor of the storage normalisation is
  strictly positive.
\<close>

theorem scale_at_least_fifth:
  "initialScale = 18 / 10 \<and> s < zoomIn s \<and> resetZoom s = 18 / 10
   \<and> 2 / 10 \<le> zoomOut s
   \<and> 2 / 10 \<le> scaleAfter clicks \<and> 0 < scaleAfter clicks
   \<and> 2 / 10 \<le> scale (foldl step initialState evs)
   \<and> 0 < scale (foldl step initialState evs)"
proof -
  have a: "2 / 10 \<le> scaleAfter clicks"
    unfolding scaleAfter_def by (rule foldl_zoom_floor) (simp add: initialScale_def)
  have b: "2 / 10 \<le> scale (foldl step initialState evs)"
    by (rule foldl_step_floor) (simp add: initialState_def initialScale_def)
  show ?thesis
    using a b zoomIn_increases [of s] zoomOut_floor [of s]
    by (simp add: initialScale_def resetZoom_def)
qed

theorem scale_at_least_fifth_witness:
  "scaleAfter [ZoomOut, ZoomOut, ZoomOut, ZoomOut, ZoomOut, ZoomOut, ZoomOut, ZoomOut,
      ZoomOut, ZoomOut] = 2 / 10
   \<and> 0 < scaleAfter [ZoomOut, ZoomOut, ZoomOut, ZoomOut, ZoomOut, ZoomOut, ZoomOut, ZoomOut,
      ZoomOut, ZoomOut]
   \<and> 0 < scale (foldl step initialState [Zoom ZoomOut, Zoom ZoomIn, Zoom ResetZoom])"
  using scale_at_least_fifth
    [of 1 "[ZoomOut, ZoomOut, ZoomOut, ZoomOut, ZoomOut, ZoomOut, ZoomOut, ZoomOut,
      ZoomOut, ZoomOut]" "[Zoom ZoomOut, Zoom ZoomIn, Zoom ResetZoom]"]
  by (simp add: scaleAfter_def initialScale_def zoomOut_def toFixed1_def)

section \<open>Properties of the sort\<close>

lemma mset_insertSorted: "mset (insertSorted comparefn a bs) = add_mset a (mset bs)"
  by (induction bs) simp_all

lemma set_insertSorted: "set (insertSorted comparefn a bs) = insert a (set bs)"
  by (induction bs) auto

lemma arraySort_snoc:
  "arraySort comparefn (xs @ [a]) = insertSorted comparefn a (arraySort comparefn xs)"
  by (simp add: arraySort_def)

lemma mset_arraySort: "mset (arraySort comparefn xs) = mset xs"
proof (induction xs rule: rev_induct)
  case Nil
  then show ?case by (simp add: arraySort_def)
next
  case (snoc a xs)
  then show ?case by (simp add: arraySort_snoc mset_insertSorted)
qed

lemma set_arraySort: "set (arraySort comparefn xs) = set xs"
  using mset_arraySort [of comparefn xs] by (metis set_mset_mset)

lemma distinct_arraySort: "distinct (arraySort comparefn xs) = distinct xs"
  using mset_arraySort [of comparefn xs] by (metis mset_eq_imp_distinct_iff)

lemma sorted_insertSorted:
  assumes "sorted (map f bs)"
    and "\<forall>b \<in> set bs. (SortCompare comparefn a b < 0) = (f a < f b)"
  shows "sorted (map f (insertSorted comparefn a bs))"
  using assms
proof (induction bs)
  case Nil
  then show ?case by simp
next
  case (Cons b bs)
  show ?case
  proof (cases "f a < f b")
    case True
    then show ?thesis using Cons.prems by auto
  next
    case False
    then show ?thesis using Cons by (auto simp add: set_insertSorted)
  qed
qed

text \<open>
  Stability of one insertion: among the elements of any one key, the new element
  comes last.
\<close>

lemma filter_insertSorted:
  assumes "sorted (map f bs)"
    and "\<forall>b \<in> set bs. (SortCompare comparefn a b < 0) = (f a < f b)"
  shows "filter (\<lambda>x. f x = k) (insertSorted comparefn a bs) = filter (\<lambda>x. f x = k) (bs @ [a])"
  using assms
proof (induction bs)
  case Nil
  then show ?case by simp
next
  case (Cons b bs)
  show ?case
  proof (cases "f a < f b")
    case True
    have "\<forall>x \<in> set (b # bs). f a < f x"
      using True Cons.prems(1) by auto
    then have "f a = k \<Longrightarrow> filter (\<lambda>x. f x = k) (b # bs) = []"
      by (auto simp add: filter_empty_conv)
    then show ?thesis using True Cons.prems(2) by auto
  next
    case False
    then show ?thesis using Cons by auto
  qed
qed

lemma arraySort_sorted_stable:
  assumes "ordersBy comparefn f xs"
  shows "sorted (map f (arraySort comparefn xs))
         \<and> (\<forall>k. filter (\<lambda>x. f x = k) (arraySort comparefn xs) = filter (\<lambda>x. f x = k) xs)"
  using assms
proof (induction xs rule: rev_induct)
  case Nil
  then show ?case by (simp add: arraySort_def)
next
  case (snoc a xs)
  have o: "ordersBy comparefn f xs"
    using snoc.prems by (simp add: ordersBy_def list_all_iff)
  have c: "\<forall>b \<in> set (arraySort comparefn xs). (SortCompare comparefn a b < 0) = (f a < f b)"
    using snoc.prems by (simp add: ordersBy_def list_all_iff set_arraySort)
  have s: "sorted (map f (arraySort comparefn xs))"
    using snoc.IH o by simp
  have st: "filter (\<lambda>x. f x = k) (arraySort comparefn xs) = filter (\<lambda>x. f x = k) xs" for k
    using snoc.IH o by simp
  show ?case
    using sorted_insertSorted [OF s c] filter_insertSorted [OF s c] st
    by (simp add: arraySort_snoc)
qed

text \<open>With a comparator that orders by a key, the sort is the library's stable sort by that key.\<close>

lemma arraySort_sort_key:
  assumes "ordersBy comparefn f xs"
  shows "arraySort comparefn xs = sort_key f xs"
proof (rule sym, rule properties_for_sort_key)
  show "mset (arraySort comparefn xs) = mset xs"
    by (rule mset_arraySort)
  show "sorted (map f (arraySort comparefn xs))"
    using arraySort_sorted_stable [OF assms] by simp
  show "filter (\<lambda>x. f k = f x) (arraySort comparefn xs) = filter (\<lambda>x. f k = f x) xs" for k
    using arraySort_sorted_stable [OF assms] by (simp add: eq_commute [of "f k"])
qed

lemma sort_key_resort_snoc: "sort_key f (sort_key f xs @ [h]) = sort_key f (xs @ [h])"
proof (rule properties_for_sort_key)
  show "mset (sort_key f (xs @ [h])) = mset (sort_key f xs @ [h])"
    by simp
  show "sorted (map f (sort_key f (xs @ [h])))"
    by simp
  show "filter (\<lambda>x. f k = f x) (sort_key f (xs @ [h]))
        = filter (\<lambda>x. f k = f x) (sort_key f xs @ [h])" for k
    by (simp add: eq_commute [of "f k"] sort_key_stable)
qed

lemma compareTop_ordersBy:
  assumes "\<forall>h \<in> set hs. rects h \<noteq> []"
  shows "ordersBy compareTop firstTop hs"
  using assms
  by (auto simp add: ordersBy_def list_all_iff SortCompare_def compareTop_def firstTop_def
      split: list.splits)

lemma numeric_ordersBy: "ordersBy (\<lambda>a b. Num (a - b)) (\<lambda>a. a) ps"
  by (simp add: ordersBy_def list_all_iff SortCompare_def)

section \<open>Properties of the grouping\<close>

lemma grouped_snoc:
  "allHighlightsGroupedByPage (hs @ [h]) = groupStep (allHighlightsGroupedByPage hs) h"
  by (simp add: allHighlightsGroupedByPage_def)

text \<open>
  What the reducer maintains: one entry per page that has a highlight, holding
  that page's highlights stably sorted by the top of their first rectangle.
\<close>

lemma grouped_invariant:
  assumes "\<forall>h \<in> set hs. rects h \<noteq> []"
  shows "distinct (map fst (allHighlightsGroupedByPage hs))
         \<and> fst ` set (allHighlightsGroupedByPage hs) = page_number ` set hs
         \<and> (\<forall>pn. pn \<in> page_number ` set hs \<longrightarrow>
              map_of (allHighlightsGroupedByPage hs) pn
                = Some (sort_key firstTop (onPage pn hs)))"
  using assms
proof (induction hs rule: rev_induct)
  case Nil
  then show ?case by (simp add: allHighlightsGroupedByPage_def)
next
  case (snoc h hs)
  let ?acc = "allHighlightsGroupedByPage hs"
  let ?p = "page_number h"
  have prem: "\<forall>h \<in> set hs. rects h \<noteq> []" "rects h \<noteq> []"
    using snoc.prems by simp_all
  note ih = snoc.IH [OF prem(1)]
  have ih1: "distinct (map fst ?acc)"
    using ih by blast
  have ih2: "fst ` set ?acc = page_number ` set hs"
    using ih by blast
  have ih3: "map_of ?acc pn = Some (sort_key firstTop (onPage pn hs))"
    if "pn \<in> page_number ` set hs" for pn
    using ih that by blast
  have cur: "(case map_of ?acc ?p of None \<Rightarrow> [] | Some g \<Rightarrow> g)
               = sort_key firstTop (onPage ?p hs)"
  proof (cases "?p \<in> page_number ` set hs")
    case True
    then show ?thesis using ih3 by simp
  next
    case False
    then have "map_of ?acc ?p = None"
      using ih2 by (metis map_of_eq_None_iff)
    moreover have "onPage ?p hs = []"
      using False by (force simp add: onPage_def filter_empty_conv image_iff)
    ultimately show ?thesis by simp
  qed
  have ne: "\<forall>x \<in> set (sort_key firstTop (onPage ?p hs) @ [h]). rects x \<noteq> []"
    using prem by (auto simp add: onPage_def)
  have "arraySort compareTop (sort_key firstTop (onPage ?p hs) @ [h])
          = sort_key firstTop (sort_key firstTop (onPage ?p hs) @ [h])"
    by (rule arraySort_sort_key [OF compareTop_ordersBy [OF ne]])
  also have "\<dots> = sort_key firstTop (onPage ?p hs @ [h])"
    by (rule sort_key_resort_snoc)
  also have "\<dots> = sort_key firstTop (onPage ?p (hs @ [h]))"
    by (simp add: onPage_def)
  finally have new: "arraySort compareTop (sort_key firstTop (onPage ?p hs) @ [h])
          = sort_key firstTop (onPage ?p (hs @ [h]))" .
  have step: "allHighlightsGroupedByPage (hs @ [h])
          = AList.update ?p (sort_key firstTop (onPage ?p (hs @ [h]))) ?acc"
    by (simp add: grouped_snoc groupStep_def Let_def cur new)
  have other: "onPage pn (hs @ [h]) = onPage pn hs" if "pn \<noteq> ?p" for pn
    using that by (auto simp add: onPage_def)
  have a: "distinct (map fst (allHighlightsGroupedByPage (hs @ [h])))"
    unfolding step using ih1 by (rule distinct_update)
  have b: "fst ` set (allHighlightsGroupedByPage (hs @ [h])) = page_number ` set (hs @ [h])"
    unfolding step using ih2 by (simp add: dom_update)
  have c: "map_of (allHighlightsGroupedByPage (hs @ [h])) pn
             = Some (sort_key firstTop (onPage pn (hs @ [h])))"
    if "pn \<in> page_number ` set (hs @ [h])" for pn
  proof (cases "pn = ?p")
    case True
    then show ?thesis unfolding step by (simp add: update_conv')
  next
    case False
    then have "pn \<in> page_number ` set hs"
      using that by auto
    then show ?thesis
      unfolding step using False by (simp add: update_conv' ih3 other)
  qed
  show ?case
    using a b c by blast
qed

text \<open>
  Claim C6. For highlights that all have a rectangle, the listed pages are the
  pages that have a highlight, each once, in ascending order; and the group of
  each listed page is ascending in the top of the first rectangle, holds the
  highlights of any one top in the order they had in the input, and is the
  stable sort of the page's highlights by that top.
\<close>

theorem groupByPage_ordered:
  assumes "\<forall>h \<in> set hs. rects h \<noteq> []"
  shows "sorted (pagesWithHighlights hs) \<and> distinct (pagesWithHighlights hs)
         \<and> set (pagesWithHighlights hs) = page_number ` set hs
         \<and> (\<forall>pn \<in> set (pagesWithHighlights hs).
              sorted (map firstTop (groupOfPage hs pn))
              \<and> (\<forall>k. filter (\<lambda>h. firstTop h = k) (groupOfPage hs pn)
                      = filter (\<lambda>h. firstTop h = k) (onPage pn hs))
              \<and> groupOfPage hs pn = sort_key firstTop (onPage pn hs))"
proof -
  note inv = grouped_invariant [OF assms]
  have keys: "set (map fst (allHighlightsGroupedByPage hs)) = page_number ` set hs"
    using inv by simp
  have s: "sorted (pagesWithHighlights hs)"
    using arraySort_sorted_stable
      [OF numeric_ordersBy, of "map fst (allHighlightsGroupedByPage hs)"]
    by (simp add: pagesWithHighlights_def)
  have d: "distinct (pagesWithHighlights hs)"
    using inv by (simp add: pagesWithHighlights_def distinct_arraySort)
  have e: "set (pagesWithHighlights hs) = page_number ` set hs"
    using keys by (simp add: pagesWithHighlights_def set_arraySort)
  have g: "groupOfPage hs pn = sort_key firstTop (onPage pn hs)"
    if "pn \<in> set (pagesWithHighlights hs)" for pn
    using inv that e by (simp add: groupOfPage_def)
  show ?thesis
    using s d e g by (simp add: sort_key_stable)
qed

lemma exampleHighlights_rects: "\<forall>h \<in> set exampleHighlights. rects h \<noteq> []"
  by (simp add: exampleHighlights_def exampleHighlight_def)

theorem groupByPage_ordered_witness:
  "list_all (\<lambda>h. rects h \<noteq> []) exampleHighlights
   \<and> pagesWithHighlights exampleHighlights = [1, 2]
   \<and> map id' (groupOfPage exampleHighlights 1) = [''b'', ''e'']
   \<and> map id' (groupOfPage exampleHighlights 2) = [''c'', ''a'', ''d'']"
proof -
  note t = groupByPage_ordered [OF exampleHighlights_rects]
  have p: "pagesWithHighlights exampleHighlights = [1, 2]"
    by (simp add: pagesWithHighlights_def allHighlightsGroupedByPage_def groupStep_def
        arraySort_def SortCompare_def compareTop_def exampleHighlights_def
        exampleHighlight_def)
  have g: "groupOfPage exampleHighlights pn = sort_key firstTop (onPage pn exampleHighlights)"
    if "pn = 1 \<or> pn = 2" for pn
    using t p that by auto
  show ?thesis
    using exampleHighlights_rects p g [of 1] g [of 2]
    by (simp add: list_all_iff onPage_def exampleHighlights_def exampleHighlight_def
        firstTop_def)
qed

section \<open>Properties of the colour pattern\<close>

lemmas regex_defs =
  colorRegexAt_def oneOrMore_def zeroOrMore_def isDigit_def isSpace_def isDigitOrDot_def


lemma literal_append: "literal p (p @ t) = Some t"
  by (induction p) simp_all














section \<open>Properties of the export\<close>

lemma rgb_yellow: "rgb 1 1 0 = Some (RGB 1 1 0)"
  by (simp add: rgb_def)



lemma pageAt_Some:
  assumes "pageAt pages i = Some (n, page)"
  shows "n < length pages \<and> page = pages ! n \<and> i = real n"
proof -
  have c: "i = of_int \<lfloor>i\<rfloor> \<and> 0 \<le> i \<and> i < real (length pages)"
    using assms by (simp add: pageAt_def split: if_splits)
  then have e: "n = nat \<lfloor>i\<rfloor>" "page = pages ! nat \<lfloor>i\<rfloor>"
    using assms by (auto simp add: pageAt_def)
  have "0 \<le> \<lfloor>i\<rfloor>"
    using c by simp
  then have "real (nat \<lfloor>i\<rfloor>) = of_int \<lfloor>i\<rfloor>"
    by simp
  then have i: "i = real (nat \<lfloor>i\<rfloor>)"
    using c by linarith
  have "real (nat \<lfloor>i\<rfloor>) < real (length pages)"
    using c i by linarith
  then have "nat \<lfloor>i\<rfloor> < length pages"
    by simp
  then show ?thesis
    unfolding e using i by blast
qed

text \<open>
  The inner loop draws every rectangle when the opacity passes the library's check,
  and draws nothing and throws at the first rectangle when it does not.
\<close>

lemma drawRects_valid:
  "validOpacity (snd co) \<Longrightarrow> drawRects n page co rs = Inr (map (drawRect n page co) rs)"
  by (induction rs) (simp_all add: page_drawRectangle_def drawRect_def)

lemma drawRects_invalid:
  "\<not> validOpacity (snd co) \<Longrightarrow> rs \<noteq> [] \<Longrightarrow> drawRects n page co rs = Inl ExportFailed"
  by (cases rs) (simp_all add: page_drawRectangle_def drawRect_def)

lemma drawRects_Inr:
  assumes "drawRects n page co rs = Inr ds"
  shows "ds = map (drawRect n page co) rs \<and> (rs \<noteq> [] \<longrightarrow> validOpacity (snd co))"
proof (cases "validOpacity (snd co)")
  case True
  then show ?thesis using assms by (simp add: drawRects_valid)
next
  case False
  then show ?thesis using assms drawRects_invalid [OF False, of rs n page] by (cases rs) auto
qed

lemma drawHighlight_in_range:
  assumes "pageNumberE h = real n + 1" and "n < length pages"
    and "resolveColor (colorE h) = Some (c, Num opacity)" and "0 \<le> opacity" and "opacity \<le> 1"
  shows "drawHighlight pages h
           = Inr (map (\<lambda>r. \<lparr> page_arg = n, x_arg = left r,
                              y_arg = pageHeight (pages ! n) - top' r - height r,
                              width_arg = width r, height_arg = height r,
                              color_arg = c, opacity_arg = Num opacity \<rparr>) (rectsE h))"
proof -
  have p: "pageAt pages (pageNumberE h - 1) = Some (n, pages ! n)"
    using assms(1,2) by (simp add: pageAt_def)
  have v: "validOpacity (snd (c, Num opacity))"
    using assms(4,5) by (simp add: validOpacity_def)
  show ?thesis
    using assms(1,2,3) p drawRects_valid [OF v, of n "pages ! n" "rectsE h"]
    by (simp add: drawHighlight_def drawRect_def)
qed

text \<open>
  Every call made for a highlight comes from one of its rectangles, on its page,
  with the colour and opacity resolved for the highlight.
\<close>

lemma drawHighlight_sound:
  assumes "drawHighlight pages h = Inr ds" and "d \<in> set ds"
  shows "\<exists>r \<in> set (rectsE h). \<exists>co. page_arg d < length pages
           \<and> pageNumberE h = real (page_arg d) + 1
           \<and> resolveColor (colorE h) = Some co \<and> validOpacity (snd co)
           \<and> d = drawRect (page_arg d) (pages ! page_arg d) co r"
proof (cases "pageNumberE h \<le> 0 \<or> pageNumberE h > real (length pages)")
  case True
  then show ?thesis using assms by (simp add: drawHighlight_def)
next
  case False
  then obtain n page co where p: "pageAt pages (pageNumberE h - 1) = Some (n, page)"
    and co: "resolveColor (colorE h) = Some co"
    and dr: "drawRects n page co (rectsE h) = Inr ds"
    using assms(1) by (auto simp add: drawHighlight_def split: option.splits)
  note q = pageAt_Some [OF p]
  note e = drawRects_Inr [OF dr]
  obtain r where r: "r \<in> set (rectsE h)" "d = drawRect n page co r"
    using assms(2) e by auto
  have v: "validOpacity (snd co)"
    using e r(1) by auto
  have "page_arg d = n"
    using r(2) by (simp add: drawRect_def)
  then show ?thesis
    using q r co v by auto
qed

lemma drawHighlights_sound:
  assumes "drawHighlights pages hs = Inr ds" and "d \<in> set ds"
  shows "\<exists>h \<in> set hs. \<exists>r \<in> set (rectsE h). \<exists>co. page_arg d < length pages
           \<and> pageNumberE h = real (page_arg d) + 1
           \<and> resolveColor (colorE h) = Some co \<and> validOpacity (snd co)
           \<and> d = drawRect (page_arg d) (pages ! page_arg d) co r"
  using assms
proof (induction hs arbitrary: ds)
  case Nil
  then show ?case by simp
next
  case (Cons h hs)
  from Cons.prems(1) obtain d1 d2 where
    s: "drawHighlight pages h = Inr d1" "drawHighlights pages hs = Inr d2" "ds = d1 @ d2"
    by (auto split: sum.splits)
  show ?case
  proof (cases "d \<in> set d1")
    case True
    then show ?thesis using drawHighlight_sound [OF s(1)] by auto
  next
    case False
    then have "d \<in> set d2" using Cons.prems(2) s(3) by simp
    then show ?thesis using Cons.IH [OF s(2)] by auto
  qed
qed

lemma POST_export_Inr:
  "POST_export pdfData (Some hs) (Some pages) = Inr ds \<Longrightarrow> drawHighlights pages hs = Inr ds"
  by (auto simp add: POST_export_def split: option.splits if_splits)

text \<open>
  Claim C3. A highlight on page \<open>n + 1\<close> of the document, whose colour resolves
  to an opacity the library accepts, draws one rectangle per stored rectangle, in
  order, on that page, at \<open>x = left\<close>, \<open>y = pageHeight - top - height\<close>, with the
  stored width and height. And every rectangle an export draws is one of these:
  it is placed so for a rectangle of a highlight of the page it is drawn on. No
  scale enters the conversion.
\<close>

theorem export_rect_placement:
  "(pageNumberE h = real n + 1 \<and> n < length pages
      \<and> resolveColor (colorE h) = Some (c, Num opacity) \<and> 0 \<le> opacity \<and> opacity \<le> 1 \<longrightarrow>
      drawHighlight pages h =
        Inr (map (\<lambda>r. \<lparr> page_arg = n, x_arg = left r,
                         y_arg = pageHeight (pages ! n) - top' r - height r,
                         width_arg = width r, height_arg = height r,
                         color_arg = c, opacity_arg = Num opacity \<rparr>) (rectsE h)))
   \<and> (POST_export pdfData (Some hs) (Some pages) = Inr ds \<and> d \<in> set ds \<longrightarrow>
        (\<exists>g \<in> set hs. \<exists>r \<in> set (rectsE g).
           page_arg d < length pages \<and> pageNumberE g = real (page_arg d) + 1
           \<and> x_arg d = left r
           \<and> y_arg d = pageHeight (pages ! page_arg d) - top' r - height r
           \<and> width_arg d = width r \<and> height_arg d = height r))"
proof -
  have b: "\<exists>g \<in> set hs. \<exists>r \<in> set (rectsE g).
           page_arg d < length pages \<and> pageNumberE g = real (page_arg d) + 1
           \<and> x_arg d = left r
           \<and> y_arg d = pageHeight (pages ! page_arg d) - top' r - height r
           \<and> width_arg d = width r \<and> height_arg d = height r"
    if "POST_export pdfData (Some hs) (Some pages) = Inr ds" and "d \<in> set ds"
  proof -
    from drawHighlights_sound [OF POST_export_Inr [OF that(1)] that(2)] obtain g r co where
      "g \<in> set hs" "r \<in> set (rectsE g)" "page_arg d < length pages"
      "pageNumberE g = real (page_arg d) + 1"
      "d = drawRect (page_arg d) (pages ! page_arg d) co r"
      by blast
    then show ?thesis
      by (metis drawRect_def drawRectangle.select_convs(2,3,4,5))
  qed
  show ?thesis
    using drawHighlight_in_range [of h n pages c opacity] b by blast
qed

theorem export_rect_placement_witness:
  "drawHighlight [examplePage] exampleExportHighlight = Inr [exampleDraw]
   \<and> POST_export (Some ''JVBERi0='') (Some [exampleExportHighlight]) (Some [examplePage])
       = Inr [exampleDraw]
   \<and> y_arg exampleDraw = 800 - 10 - 20"
proof -
  have p: "pageNumberE exampleExportHighlight = real 0 + 1 \<and> 0 < length [examplePage]
           \<and> resolveColor (colorE exampleExportHighlight) = Some (RGB 1 1 0, Num (3 / 10))
           \<and> (0::real) \<le> 3 / 10 \<and> (3 / 10 :: real) \<le> 1"
    by (simp add: exampleExportHighlight_def resolveColor_def rgb_yellow)
  have "drawHighlight [examplePage] exampleExportHighlight
          = Inr (map (\<lambda>r. \<lparr> page_arg = 0, x_arg = left r,
                         y_arg = pageHeight ([examplePage] ! 0) - top' r - height r,
                         width_arg = width r, height_arg = height r,
                         color_arg = RGB 1 1 0, opacity_arg = Num (3 / 10) \<rparr>)
                  (rectsE exampleExportHighlight))"
    using export_rect_placement
      [where h = exampleExportHighlight and n = 0 and pages = "[examplePage]"
         and c = "RGB 1 1 0" and opacity = "3 / 10"] p
    by blast
  then have d: "drawHighlight [examplePage] exampleExportHighlight = Inr [exampleDraw]"
    by (simp add: exampleExportHighlight_def examplePage_def exampleRect_def exampleDraw_def)
  then show ?thesis
    by (simp add: POST_export_def exampleDraw_def)
qed

text \<open>
  A page number in the range of the check that is not an integer reads no page,
  and the export ends with the error.
\<close>

lemma drawHighlight_fraction_throws:
  assumes "0 < pageNumberE h" and "pageNumberE h \<le> real (length pages)"
    and "pageNumberE h \<noteq> of_int \<lfloor>pageNumberE h\<rfloor>"
  shows "drawHighlight pages h = Inl ExportFailed"
proof -
  have "pageNumberE h - 1 \<noteq> of_int \<lfloor>pageNumberE h - 1\<rfloor>"
    using assms(3) by simp
  then show ?thesis
    using assms(1,2) by (simp add: drawHighlight_def pageAt_def)
qed

text \<open>What the colour of a highlight resolves to, by what the matcher finds in it.\<close>

lemma colorMatch_empty: "colorMatch [] = None"
  by (simp add: colorRegexAt_def)







text \<open>The colours of the specification's examples, and some others.\<close>

lemma color_examples:
  "resolveColor None = Some (RGB 1 1 0, Num (3 / 10))"
  "resolveColor (Some ''rgb(10,20,30)'') = Some (RGB (10 / 255) (20 / 255) (30 / 255), Num 1)"
  "resolveColor (Some ''rgba(10,20,30,0.5)'')
     = Some (RGB (10 / 255) (20 / 255) (30 / 255), Num (1 / 2))"
  "resolveColor (Some ''rgba(255, 255, 0, 0.4)'') = Some (RGB 1 1 0, Num (4 / 10))"
  "resolveColor (Some ''yellow'') = Some (RGB 1 1 0, Num (3 / 10))"
  "resolveColor (Some ''rgba(10,20,30,-1)'') = Some (RGB 1 1 0, Num (3 / 10))"
  "resolveColor (Some ''rgba(10,20,30,.)'')
     = Some (RGB (10 / 255) (20 / 255) (30 / 255), NaN)"
  "resolveColor (Some ''RGB(10,20,30)'') = Some (RGB 1 1 0, Num (3 / 10))"
  "resolveColor (Some ''rgb(10,20,30'') = Some (RGB 1 1 0, Num (3 / 10))"
  "resolveColor (Some ''rgb( 10,20,30)'') = Some (RGB 1 1 0, Num (3 / 10))"
  "resolveColor (Some ''color: rgb(10,20,30);'')
     = Some (RGB (10 / 255) (20 / 255) (30 / 255), Num 1)"
  "resolveColor (Some ''rgb(10,20,x) rgba(4,5,6,1.2.3)'')
     = Some (RGB (4 / 255) (5 / 255) (6 / 255), Num (12 / 10))"
  "resolveColor (Some ''rgb(256,0,0)'') = None"
  by (simp_all add: resolveColor_def rgb_def regex_defs parseInt_def parseFloat_def
      digitsValue_def)

text \<open>
  A highlight whose page number is at most 0 or greater than the page count is
  skipped, and the export goes on with the rest; so is every highlight whose page
  number is an integer outside \<open>1 .. length pages\<close>.
\<close>

lemma drawHighlights_skips:
  assumes "pageNumberE h \<le> 0 \<or> pageNumberE h > real (length pages)"
  shows "drawHighlights pages (h # hs) = drawHighlights pages hs"
  using assms by (auto simp add: drawHighlight_def split: sum.splits)

lemma drawHighlights_skips_integer:
  assumes "pageNumberE h = of_int k" and "\<not> (1 \<le> k \<and> k \<le> int (length pages))"
  shows "drawHighlights pages (h # hs) = drawHighlights pages hs"
  using assms by (intro drawHighlights_skips) auto

text \<open>
  Claim C5. The claim asks that a highlight whose page number is not between 1
  and the page count be skipped and never end the export. The check of the route
  is \<^verbatim>\<open>pageNumber <= 0 || pageNumber > pages.length\<close>; a page number strictly
  between 0 and 1 is not between 1 and the page count, passes the check, reads
  \<^verbatim>\<open>pages[pageNumber - 1]\<close> at a negative fraction, and the call of \<^verbatim>\<open>getSize\<close> on
  \<^verbatim>\<open>undefined\<close> ends the whole export with status 500. Here: page number 1/2 on
  a document of one page.
\<close>

theorem export_fractional_page_aborts:
  "\<not> (1 \<le> (1 / 2 :: real) \<and> (1 / 2 :: real) \<le> real (length [examplePage]))
   \<and> POST_export (Some ''JVBERi0='')
       (Some [\<lparr>idE = ''hl-1'', pageNumberE = 1 / 2, rectsE = [exampleRect],
               selectedTextE = ''abc'', colorE = None\<rparr>])
       (Some [examplePage])
     = Inl ExportFailed"
  by (simp add: POST_export_def drawHighlight_def pageAt_def)

section \<open>Properties of the sync route\<close>

text \<open>
  Claim C8. Running the sync a second time with the same document, the same
  highlights and the same behaviour of the database leaves the table as the first
  run left it, gives the same answer, and every document reads the same rows.
\<close>

theorem sync_twice:
  "table (POST_highlights pdfId hs faults (table (POST_highlights pdfId hs faults rows)))
     = table (POST_highlights pdfId hs faults rows)
   \<and> response (POST_highlights pdfId hs faults (table (POST_highlights pdfId hs faults rows)))
     = response (POST_highlights pdfId hs faults rows)
   \<and> GET_highlights p
       (table (POST_highlights pdfId hs faults (table (POST_highlights pdfId hs faults rows))))
     = GET_highlights p (table (POST_highlights pdfId hs faults rows))"
  by (auto simp add: POST_highlights_def highlightsToInsert_def Let_def split: option.splits)

theorem sync_twice_witness:
  "table (POST_highlights (Some ''pdf-1'') (Some [exampleHighlight ''a'' 1 30])
            \<lparr>deleteError = False, insertError = False\<rparr>
            (table (POST_highlights (Some ''pdf-1'') (Some [exampleHighlight ''a'' 1 30])
                      \<lparr>deleteError = False, insertError = False\<rparr>
                      [exampleRow ''pdf-1'', exampleRow ''pdf-2''])))
   = [exampleRow ''pdf-2'',
      \<lparr> pdf_id = ''pdf-1'', page_number_col = 1,
        rects_col = [\<lparr>top' = 30, left = 0, width = 10, height = 10\<rparr>],
        selected_text_col = ''a'', color_col = None \<rparr>]"
  using sync_twice
    [of "Some ''pdf-1''" "Some [exampleHighlight ''a'' 1 30]"
        "\<lparr>deleteError = False, insertError = False\<rparr>"
        "[exampleRow ''pdf-1'', exampleRow ''pdf-2'']" "''pdf-1''"]
  by (simp add: POST_highlights_def highlightsToInsert_def exampleRow_def exampleHighlight_def)

text \<open>
  Claim C10. A sync with a non-empty document id and the empty array of
  highlights passes validation, deletes the document's rows, makes no insert call,
  and answers with success: afterwards the document has no row.
\<close>

theorem sync_empty_wipes:
  assumes "pdfId \<noteq> []" and "\<not> deleteError faults"
  shows "POST_highlights (Some pdfId) (Some []) faults rows
           = \<lparr>response = Synced, table = filter (\<lambda>r. pdf_id r \<noteq> pdfId) rows,
              calls = [Delete pdfId]\<rparr>
         \<and> GET_highlights pdfId (table (POST_highlights (Some pdfId) (Some []) faults rows)) = []"
  using assms by (simp add: POST_highlights_def GET_highlights_def)

theorem sync_empty_wipes_witness:
  "POST_highlights (Some ''pdf-1'') (Some []) \<lparr>deleteError = False, insertError = True\<rparr>
     [exampleRow ''pdf-1'', exampleRow ''pdf-2'', exampleRow ''pdf-1'']
   = \<lparr>response = Synced, table = [exampleRow ''pdf-2''], calls = [Delete ''pdf-1'']\<rparr>"
proof -
  have i: "''pdf-1'' \<noteq> []"
    by simp
  have f: "\<not> deleteError \<lparr>deleteError = False, insertError = True\<rparr>"
    by simp
  show ?thesis
    using sync_empty_wipes [OF i f, of "[exampleRow ''pdf-1'', exampleRow ''pdf-2'', exampleRow ''pdf-1'']"]
    by (simp add: exampleRow_def)
qed

end
